theory Spec2Isabelle
  imports Complex_Main "HOL-Library.AList"
begin

section \<open>Wire messages\<close>

text \<open>
  The two application messages are \<^verbatim>\<open>send-location\<close> (client to relay) and
  \<^verbatim>\<open>receive-location\<close> (relay to clients). Both are JSON objects of which the code
  reads the fields \<^verbatim>\<open>id\<close>, \<^verbatim>\<open>latitude\<close> and \<^verbatim>\<open>longitude\<close>. A field that is missing
  reads as \<^verbatim>\<open>undefined\<close> when the object is destructured. An identity is
  \<^verbatim>\<open>undefined\<close>, \<^verbatim>\<open>null\<close> (the initial value of \<^verbatim>\<open>mySocketId\<close>) or a string; a coordinate
  is missing or a finite number (the code stores and compares coordinates and never
  computes with them, so a finite double is modelled by the real it denotes).
\<close>

datatype jsid = JUndefined | JNull | JStr string

record location =
  id_msg :: jsid
  latitude :: "real option"
  longitude :: "real option"

text \<open>Property-key conversion: \<^verbatim>\<open>obj[id]\<close> uses the string form of \<^verbatim>\<open>id\<close>.\<close>

fun key_of :: "jsid \<Rightarrow> string" where
  "key_of JUndefined = ''undefined''"
| "key_of JNull = ''null''"
| "key_of (JStr s) = s"

datatype exn = TypeError | InvalidLatLng

section \<open>The relay (server)\<close>

text \<open>
  \<^verbatim>\<open>
  io.on('connection', (socket) => {
    socket.on('send-location', (data) => {
      io.emit('receive-location', {id:socket.id,...data});
    });
    console.log('A user connected');
    socket.on('disconnect', () => {
      console.log('A user disconnected');
    });
  });
  \<close>
  The set of connected sockets is kept by socket.io: a socket joins it on connection and
  leaves it on disconnect, and \<^verbatim>\<open>io.emit\<close> sends to every socket in it. The handlers of
  the repository add only the log lines and the \<^verbatim>\<open>receive-location\<close> broadcast.
\<close>

record relay =
  sockets :: "string list"
  console :: "string list"

type_synonym delivery = "string \<times> string \<times> location"

definition io_emit :: "string \<Rightarrow> location \<Rightarrow> relay \<Rightarrow> delivery list" where
  "io_emit ev msg r = map (\<lambda>c. (c, ev, msg)) (sockets r)"

text \<open>
  The object literal \<^verbatim>\<open>{id:socket.id,...data}\<close> writes \<^verbatim>\<open>id\<close> first and then copies
  every own property of \<^verbatim>\<open>data\<close> over it: an \<^verbatim>\<open>id\<close> carried by the payload replaces the
  socket's.
\<close>

definition spread_id :: "string \<Rightarrow> location \<Rightarrow> location" where
  "spread_id sid data =
     \<lparr>id_msg = (case id_msg data of JUndefined \<Rightarrow> JStr sid | v \<Rightarrow> v),
      latitude = latitude data, longitude = longitude data\<rparr>"

definition connection :: "string \<Rightarrow> relay \<Rightarrow> relay" where
  "connection sid r =
     r\<lparr>sockets := sockets r @ [sid], console := console r @ [''A user connected'']\<rparr>"

definition send_location :: "string \<Rightarrow> location \<Rightarrow> relay \<Rightarrow> relay \<times> delivery list" where
  "send_location sid data r = (r, io_emit ''receive-location'' (spread_id sid data) r)"

definition disconnect :: "string \<Rightarrow> relay \<Rightarrow> relay \<times> delivery list" where
  "disconnect sid r =
     (r\<lparr>sockets := removeAll sid (sockets r),
        console := console r @ [''A user disconnected'']\<rparr>, [])"

text \<open>The \<^verbatim>\<open>receive-location\<close> messages that a run of deliveries hands to channel \<open>c\<close>.\<close>

definition received_by :: "string \<Rightarrow> delivery list \<Rightarrow> location list" where
  "received_by c out =
     map (\<lambda>d. snd (snd d)) (filter (\<lambda>d. fst d = c \<and> fst (snd d) = ''receive-location'') out)"

section \<open>The client state\<close>

text \<open>
  Both client scripts keep the same module-level variables: \<^verbatim>\<open>mySocketId\<close>,
  \<^verbatim>\<open>myMarker\<close> and the registry \<^verbatim>\<open>activeUsers\<close>, an object used as a dictionary from
  identity to \<^verbatim>\<open>{id, marker, lastUpdate}\<close>. A participant's position is not a field of
  its own: it is the position of the Leaflet marker the entry refers to. Markers are
  objects shared by reference (\<^verbatim>\<open>myMarker\<close> and the local entry's \<^verbatim>\<open>marker\<close> are the same
  object), so they live in a store indexed by reference, with an allocation counter.
  Times are milliseconds since the epoch, the value of \<^verbatim>\<open>new Date()\<close>.

  The registry's own properties are an association list in insertion order: adding or
  replacing an own property is \<open>AList.update\<close>, \<^verbatim>\<open>delete activeUsers[k]\<close> is
  \<open>AList.delete\<close>, and \<^verbatim>\<open>Object.keys(activeUsers)\<close> is \<open>Object_keys\<close>. The registry is a
  plain object, so a read \<^verbatim>\<open>activeUsers[k]\<close> that finds no own property goes on to the
  prototype, \<^verbatim>\<open>Object.prototype\<close> and its members, and an assignment to the key
  \<^verbatim>\<open>__proto__\<close> replaces the prototype instead of adding a property; \<open>protoEntry\<close> is the
  entry that such an assignment has made the prototype, and \<open>alienProps\<close> holds what the
  unnamed script has written onto members of \<^verbatim>\<open>Object.prototype\<close>. Popups, the sidebar
  list, the address lookup and the map view are presentation and are left out, except
  where they can throw.
\<close>

record marker_obj =
  latlng :: "real \<times> real"
  onMap :: bool
  selfIcon :: bool

record user =
  id_user :: jsid
  marker :: "nat option"
  lastUpdate :: int

record alien =
  a_marker :: "nat option"
  a_lastUpdate :: "int option"

record client =
  mySocketId :: jsid
  myMarker :: "nat option"
  activeUsers :: "(string \<times> user) list"
  protoEntry :: "user option"
  alienProps :: "(string \<times> alien) list"
  markers :: "nat \<Rightarrow> marker_obj"
  nextMarker :: nat
  emitted :: "location list"
  connectionText :: string
  trackingText :: string
  trackingIcon :: string
  pulse :: bool
  toasts :: "string list"
  mapPresent :: bool
  usersListPresent :: bool
  hasInitialLocation :: bool

datatype position_error = PERMISSION_DENIED | POSITION_UNAVAILABLE | TIMEOUT

subsection \<open>Properties of the registry object\<close>

text \<open>The own property names of \<^verbatim>\<open>Object.prototype\<close>, which every plain object inherits.\<close>

definition Object_prototype_names :: "string list" where
  "Object_prototype_names =
     [''constructor'', ''__defineGetter__'', ''__defineSetter__'', ''hasOwnProperty'',
      ''__lookupGetter__'', ''__lookupSetter__'', ''isPrototypeOf'', ''propertyIsEnumerable'',
      ''toString'', ''valueOf'', ''__proto__'', ''toLocaleString'']"

text \<open>
  \<^verbatim>\<open>Object.keys\<close> lists the own keys that are array indices (canonical decimal numerals
  up to \<open>2^32 - 2\<close>) first, in ascending numeric order, and then the other keys in the
  order in which they were added.
\<close>

definition digits_value :: "string \<Rightarrow> nat" where
  "digits_value s = fold (\<lambda>c n. 10 * n + (of_char c - 48)) s 0"

definition index_of_key :: "string \<Rightarrow> nat option" where
  "index_of_key s =
     (if s \<noteq> [] \<and> list_all (\<lambda>c. c \<in> set ''0123456789'') s
         \<and> (s = ''0'' \<or> take 1 s \<noteq> ''0'') \<and> digits_value s \<le> 4294967294
      then Some (digits_value s) else None)"

definition Object_keys :: "(string \<times> 'a) list \<Rightarrow> string list" where
  "Object_keys al =
     sort_key (\<lambda>k. case index_of_key k of Some n \<Rightarrow> n | None \<Rightarrow> 0)
       (filter (\<lambda>k. index_of_key k \<noteq> None) (map fst al))
     @ filter (\<lambda>k. index_of_key k = None) (map fst al)"

text \<open>
  What script.js finds when it reads \<^verbatim>\<open>activeUsers[k]\<close>: nothing, or an inherited value
  that is falsy (\<open>Missing\<close>); an entry of the registry's own (\<open>Own\<close>); the entry that has
  become the prototype, under the key \<^verbatim>\<open>__proto__\<close> (\<open>Proto\<close>); or some other inherited
  value that is truthy and has no \<^verbatim>\<open>marker\<close> (\<open>Alien\<close>): a member of \<^verbatim>\<open>Object.prototype\<close>,
  \<^verbatim>\<open>Object.prototype\<close> itself, or a field of the entry that has become the prototype.
\<close>

datatype slot = Missing | Own user | Proto user | Alien

fun truthy_id :: "jsid \<Rightarrow> bool" where
  "truthy_id (JStr s) = (s \<noteq> [])"
| "truthy_id _ = False"

definition read_slot :: "client \<Rightarrow> string \<Rightarrow> slot" where
  "read_slot st k =
     (case map_of (activeUsers st) k of
        Some u \<Rightarrow> Own u
      | None \<Rightarrow>
          (case protoEntry st of
             Some e \<Rightarrow>
               if k = ''__proto__'' then Proto e
               else if k = ''id'' then (if truthy_id (id_user e) then Alien else Missing)
               else if k = ''marker'' then (if marker e \<noteq> None then Alien else Missing)
               else if k = ''lastUpdate'' then Alien
               else if k \<in> set Object_prototype_names then Alien
               else Missing
           | None \<Rightarrow> if k \<in> set Object_prototype_names then Alien else Missing))"

text \<open>The assignment \<^verbatim>\<open>activeUsers[k] = v\<close>.\<close>

definition assign_user :: "string \<Rightarrow> user \<Rightarrow> client \<Rightarrow> client" where
  "assign_user k v st =
     (if k = ''__proto__'' then st\<lparr>protoEntry := Some v\<rparr>
      else st\<lparr>activeUsers := AList.update k v (activeUsers st)\<rparr>)"


subsection \<open>Leaflet markers\<close>

text \<open>
  \<^verbatim>\<open>L.marker([lat, lng], {icon}).addTo(map)\<close> and \<^verbatim>\<open>marker.setLatLng([lat, lng])\<close> convert
  the pair with Leaflet's \<^verbatim>\<open>LatLng\<close>, which throws \<^verbatim>\<open>Invalid LatLng object\<close> when a
  coordinate is not a number, before anything is created or moved.
\<close>

definition L_marker :: "real option \<Rightarrow> real option \<Rightarrow> bool \<Rightarrow> client \<Rightarrow> exn + nat \<times> client" where
  "L_marker lat lng self st =
     (case (lat, lng) of
        (Some la, Some lo) \<Rightarrow>
          Inr (nextMarker st,
               st\<lparr>markers := (markers st)
                      (nextMarker st := \<lparr>latlng = (la, lo), onMap = True, selfIcon = self\<rparr>),
                  nextMarker := Suc (nextMarker st)\<rparr>)
      | _ \<Rightarrow> Inl InvalidLatLng)"

definition setLatLng :: "nat \<Rightarrow> real option \<Rightarrow> real option \<Rightarrow> client \<Rightarrow> exn + client" where
  "setLatLng m lat lng st =
     (case (lat, lng) of
        (Some la, Some lo) \<Rightarrow>
          Inr (st\<lparr>markers := (markers st)(m := (markers st m)\<lparr>latlng := (la, lo)\<rparr>)\<rparr>)
      | _ \<Rightarrow> Inl InvalidLatLng)"

definition removeLayer :: "nat \<Rightarrow> client \<Rightarrow> client" where
  "removeLayer m st = st\<lparr>markers := (markers st)(m := (markers st m)\<lparr>onMap := False\<rparr>)\<rparr>"

text \<open>The position of the participant stored under key \<open>k\<close>, read through its marker.\<close>

definition position_of :: "client \<Rightarrow> string \<Rightarrow> (real \<times> real) option" where
  "position_of st k =
     (case map_of (activeUsers st) k of
        None \<Rightarrow> None
      | Some u \<Rightarrow> (case marker u of None \<Rightarrow> None | Some m \<Rightarrow> Some (latlng (markers st m))))"

section \<open>The client of public/js/script.js\<close>

text \<open>
  A handler returns the state it leaves behind and the exception that ended it, if any
  (\<open>None\<close>: the handler returned normally).
\<close>

definition on_connect :: "string \<Rightarrow> client \<Rightarrow> client" where
  "on_connect sid st = st\<lparr>mySocketId := JStr sid, connectionText := ''Connected''\<rparr>"

definition on_disconnect :: "client \<Rightarrow> client" where
  "on_disconnect st =
     st\<lparr>connectionText := ''Disconnected'', trackingText := ''Tracking Inactive'',
        trackingIcon := ''fa-location-slash''\<rparr>"

text \<open>
  \<^verbatim>\<open>
  socket.on('receive-location', (data) => {
      const { id, latitude, longitude } = data;
      if (id === mySocketId) return;
      if (!activeUsers[id]) {
          activeUsers[id] = { id, marker: L.marker([latitude, longitude], ...).addTo(map),
                              lastUpdate: new Date() };
          activeUsers[id].marker.bindPopup(...);
          updateActiveUsersList();
      } else {
          activeUsers[id].marker.setLatLng([latitude, longitude]);
          activeUsers[id].lastUpdate = new Date();
      }
  });
  \<close>
  The object literal is evaluated before the assignment, so a throwing \<^verbatim>\<open>L.marker\<close>
  leaves the registry as it was. Once \<^verbatim>\<open>L.marker\<close> has succeeded the coordinates are
  numbers and the popup's \<^verbatim>\<open>latitude.toFixed(6)\<close> cannot throw. In the \<^verbatim>\<open>else\<close> branch a
  value without \<^verbatim>\<open>marker\<close> makes \<^verbatim>\<open>.marker.setLatLng\<close> throw a \<^verbatim>\<open>TypeError\<close> before anything
  is written.
\<close>

definition receive_location :: "location \<Rightarrow> int \<Rightarrow> client \<Rightarrow> exn option \<times> client" where
  "receive_location data now st =
     (if id_msg data = mySocketId st then (None, st)
      else
        (case read_slot st (key_of (id_msg data)) of
           Missing \<Rightarrow>
             (case L_marker (latitude data) (longitude data) False st of
                Inl e \<Rightarrow> (Some e, st)
              | Inr (m, st1) \<Rightarrow>
                  (None, assign_user (key_of (id_msg data))
                           \<lparr>id_user = id_msg data, marker = Some m, lastUpdate = now\<rparr> st1))
         | Own u \<Rightarrow>
             (case marker u of
                None \<Rightarrow> (Some TypeError, st)
              | Some m \<Rightarrow>
                  (case setLatLng m (latitude data) (longitude data) st of
                     Inl e \<Rightarrow> (Some e, st)
                   | Inr st1 \<Rightarrow>
                       (None, st1\<lparr>activeUsers :=
                          AList.update (key_of (id_msg data)) (u\<lparr>lastUpdate := now\<rparr>)
                            (activeUsers st1)\<rparr>)))
         | Proto p \<Rightarrow>
             (case marker p of
                None \<Rightarrow> (Some TypeError, st)
              | Some m \<Rightarrow>
                  (case setLatLng m (latitude data) (longitude data) st of
                     Inl e \<Rightarrow> (Some e, st)
                   | Inr st1 \<Rightarrow> (None, st1\<lparr>protoEntry := Some (p\<lparr>lastUpdate := now\<rparr>)\<rparr>)))
         | Alien \<Rightarrow> (Some TypeError, st)))"

text \<open>
  The success callback of \<^verbatim>\<open>watchPosition\<close> (top level of the script):
  \<^verbatim>\<open>
  (position) => {
      const { latitude, longitude } = position.coords;
      socket.emit('send-location', { latitude, longitude });
      ...
      if (myMarker) {
          myMarker.setLatLng([latitude, longitude]);
      } else {
          myMarker = L.marker([latitude, longitude], {icon: createCustomIcon(true)}).addTo(map);
          myMarker.bindPopup(...);
          activeUsers[mySocketId] = { id: mySocketId, marker: myMarker, lastUpdate: new Date() };
          map.setView([latitude, longitude], DEFAULT_ZOOM);
      }
      trackingText.textContent = 'Tracking Active';
      trackingIcon.innerHTML = '<i class="fas fa-location-arrow"></i>';
      trackingIcon.classList.add('pulse');
  }
  \<close>
\<close>

definition tracking_active :: "client \<Rightarrow> client" where
  "tracking_active st =
     st\<lparr>trackingText := ''Tracking Active'', trackingIcon := ''fa-location-arrow'', pulse := True\<rparr>"

definition watch_success :: "real \<Rightarrow> real \<Rightarrow> int \<Rightarrow> client \<Rightarrow> exn option \<times> client" where
  "watch_success la lo now st =
     (let st0 = st\<lparr>emitted := emitted st @
                   [\<lparr>id_msg = JUndefined, latitude = Some la, longitude = Some lo\<rparr>]\<rparr>
      in case myMarker st0 of
           Some m \<Rightarrow>
             (case setLatLng m (Some la) (Some lo) st0 of
                Inl e \<Rightarrow> (Some e, st0)
              | Inr st1 \<Rightarrow> (None, tracking_active st1))
         | None \<Rightarrow>
             (case L_marker (Some la) (Some lo) True st0 of
                Inl e \<Rightarrow> (Some e, st0)
              | Inr (m, st1) \<Rightarrow>
                  (None, tracking_active
                     (assign_user (key_of (mySocketId st1))
                        \<lparr>id_user = mySocketId st1, marker = Some m, lastUpdate = now\<rparr>
                        (st1\<lparr>myMarker := Some m\<rparr>)))))"

text \<open>
  \<^verbatim>\<open>initializeApp\<close> registers a second watcher on \<^verbatim>\<open>DOMContentLoaded\<close>; its success
  callback tests \<^verbatim>\<open>!myMarker\<close> first and is otherwise the same.
\<close>

definition init_watch_success :: "real \<Rightarrow> real \<Rightarrow> int \<Rightarrow> client \<Rightarrow> exn option \<times> client" where
  "init_watch_success la lo now st =
     (let st0 = st\<lparr>emitted := emitted st @
                   [\<lparr>id_msg = JUndefined, latitude = Some la, longitude = Some lo\<rparr>]\<rparr>
      in case myMarker st0 of
           None \<Rightarrow>
             (case L_marker (Some la) (Some lo) True st0 of
                Inl e \<Rightarrow> (Some e, st0)
              | Inr (m, st1) \<Rightarrow>
                  (None, tracking_active
                     (assign_user (key_of (mySocketId st1))
                        \<lparr>id_user = mySocketId st1, marker = Some m, lastUpdate = now\<rparr>
                        (st1\<lparr>myMarker := Some m\<rparr>))))
         | Some m \<Rightarrow>
             (case setLatLng m (Some la) (Some lo) st0 of
                Inl e \<Rightarrow> (Some e, st0)
              | Inr st1 \<Rightarrow> (None, tracking_active st1)))"

text \<open>
  The error callbacks. The positioning source reports one of three failures; neither
  callback looks at which one.
  \<^verbatim>\<open>
  (error) => {
      console.error('Error getting location:', error);
      trackingText.textContent = 'Tracking Error';
      trackingIcon.innerHTML = '<i class="fas fa-location-slash"></i>';
      trackingIcon.classList.remove('pulse');
      showToast('Could not get your location. Please check GPS settings.');
  }
  \<close>
\<close>

definition watch_error :: "position_error \<Rightarrow> client \<Rightarrow> client" where
  "watch_error e st =
     st\<lparr>trackingText := ''Tracking Error'', trackingIcon := ''fa-location-slash'',
        pulse := False,
        toasts := toasts st @ [''Could not get your location. Please check GPS settings.'']\<rparr>"

definition init_watch_error :: "position_error \<Rightarrow> client \<Rightarrow> client" where
  "init_watch_error e st =
     st\<lparr>trackingText := ''Tracking Failed'', trackingIcon := ''fa-exclamation-triangle'',
        toasts := toasts st @ [''Could not get your location. Please check GPS settings.'']\<rparr>"

text \<open>
  The sweep, every 30 seconds:
  \<^verbatim>\<open>
  setInterval(() => {
      const now = new Date();
      Object.keys(activeUsers).forEach(id => {
          if (now - activeUsers[id].lastUpdate > 30000 && id !== mySocketId) {
              if (activeUsers[id].marker) map.removeLayer(activeUsers[id].marker);
              delete activeUsers[id];
              updateActiveUsersList();
          }
      });
  }, 30000);
  \<close>
  \<^verbatim>\<open>Object.keys\<close> is taken once, before the loop, and lists own keys only. The threshold is the literal 30000 in
  the source; the loop takes it as the parameter \<open>thr\<close> so that properties can be stated
  for other thresholds, and \<open>cleanup\<close> is the source's instance.
\<close>

fun cleanup_loop :: "int \<Rightarrow> int \<Rightarrow> string list \<Rightarrow> client \<Rightarrow> exn option \<times> client" where
  "cleanup_loop thr now [] st = (None, st)"
| "cleanup_loop thr now (k # ks) st =
     (case map_of (activeUsers st) k of
        None \<Rightarrow> (Some TypeError, st)
      | Some u \<Rightarrow>
          if now - lastUpdate u > thr \<and> JStr k \<noteq> mySocketId st
          then cleanup_loop thr now ks
                 ((case marker u of Some m \<Rightarrow> removeLayer m st | None \<Rightarrow> st)
                    \<lparr>activeUsers := AList.delete k (activeUsers st)\<rparr>)
          else cleanup_loop thr now ks st)"

definition cleanup_with :: "int \<Rightarrow> int \<Rightarrow> client \<Rightarrow> exn option \<times> client" where
  "cleanup_with thr now st = cleanup_loop thr now (Object_keys (activeUsers st)) st"

definition cleanup :: "int \<Rightarrow> client \<Rightarrow> exn option \<times> client" where
  "cleanup now st = cleanup_with 30000 now st"

text \<open>
  The state in which the script leaves its variables when it has loaded (the texts of
  the page's elements come from the HTML and are taken empty; no marker exists yet).
\<close>

definition initial_client :: client where
  "initial_client =
     \<lparr>mySocketId = JNull, myMarker = None, activeUsers = [],
      protoEntry = None, alienProps = [],
      markers = (\<lambda>_. \<lparr>latlng = (0, 0), onMap = False, selfIcon = False\<rparr>),
      nextMarker = 0, emitted = [], connectionText = [], trackingText = [],
      trackingIcon = [], pulse = False, toasts = [],
      mapPresent = True, usersListPresent = True, hasInitialLocation = False\<rparr>"

text \<open>
  One event of the client's event loop, and a run of events. An exception ends the
  handler that raised it, not the loop: the next event finds the state the handler left.
  The two position watchers report to their own callbacks.
\<close>

datatype event =
    Connect string
  | Disconnect
  | ReceiveLocation location
  | Fix real real
  | InitFix real real
  | FixError position_error
  | InitFixError position_error
  | Tick

fun client_step :: "int \<Rightarrow> event \<Rightarrow> client \<Rightarrow> exn option \<times> client" where
  "client_step now (Connect sid) st = (None, on_connect sid st)"
| "client_step now Disconnect st = (None, on_disconnect st)"
| "client_step now (ReceiveLocation data) st = receive_location data now st"
| "client_step now (Fix la lo) st = watch_success la lo now st"
| "client_step now (InitFix la lo) st = init_watch_success la lo now st"
| "client_step now (FixError e) st = (None, watch_error e st)"
| "client_step now (InitFixError e) st = (None, init_watch_error e st)"
| "client_step now Tick st = cleanup now st"

fun client_run :: "(int \<times> event) list \<Rightarrow> client \<Rightarrow> client" where
  "client_run [] st = st"
| "client_run ((now, ev) # evs) st = client_run evs (snd (client_step now ev st))"

text \<open>
  Handing the relay's deliveries to the clients, each keyed by its channel identity:
  a client listens for \<^verbatim>\<open>receive-location\<close> and for nothing else the relay sends.
\<close>

fun deliver :: "int \<Rightarrow> delivery list \<Rightarrow> (string \<Rightarrow> client) \<Rightarrow> (string \<Rightarrow> client)" where
  "deliver now [] cs = cs"
| "deliver now ((c, ev, msg) # ds) cs =
     deliver now ds
       (if ev = ''receive-location'' then cs(c := snd (receive_location msg now (cs c))) else cs)"

section \<open>The client of the unnamed script (unnamed/part_000)\<close>

text \<open>
  The second client script shares the variables of the first and differs in its
  handlers: it does nothing without a map, it has no own-identity test and creates the
  local entry from the relay's echo, and its sweep has no exemption. It never assigns
  \<^verbatim>\<open>activeUsers[k]\<close> where \<^verbatim>\<open>activeUsers[k]\<close> is truthy, so the registry's prototype stays
  \<^verbatim>\<open>Object.prototype\<close> and \<open>protoEntry\<close> plays no part in it.
  \<^verbatim>\<open>
  function updateActiveUsersList() {
      if (!activeUsersList) return;
      ...
      Object.values(activeUsers).forEach(user => {
          const isCurrentUser = user.id === mySocketId;
          ... ${isCurrentUser ? 'You' : 'User ' + user.id.substring(0, 6)} ...
      });
      ...
  }
  \<close>
  Of the sidebar list only the exception is modelled: \<^verbatim>\<open>user.id.substring\<close> throws for
  an entry whose \<^verbatim>\<open>id\<close> is not a string.
\<close>

fun is_string :: "jsid \<Rightarrow> bool" where
  "is_string (JStr s) = True"
| "is_string _ = False"

definition updateActiveUsersList_part0 :: "client \<Rightarrow> exn option" where
  "updateActiveUsersList_part0 st =
     (if \<not> usersListPresent st then None
      else if list_ex (\<lambda>(k, u). id_user u \<noteq> mySocketId st \<and> \<not> is_string (id_user u))
                (activeUsers st)
      then Some TypeError else None)"

text \<open>
  \<^verbatim>\<open>
  socket.on("receive-location", (data) => {
      if (!map) return;
      const { id, latitude, longitude } = data;
      if (!activeUsers[id]) {
          activeUsers[id] = { id, marker: null, lastUpdate: new Date() };
          updateActiveUsersList();
      } else {
          activeUsers[id].lastUpdate = new Date();
      }
      const isCurrentUser = id === mySocketId;
      if (activeUsers[id].marker) {
          activeUsers[id].marker.setLatLng([latitude, longitude]);
      } else {
          activeUsers[id].marker = L.marker([latitude, longitude], {
              icon: createCustomIcon(isCurrentUser)
          }).addTo(map);
          activeUsers[id].marker.bindPopup(`...
              ${isCurrentUser ? 'Your Location' : 'User ' + id.substring(0, 6)} ...`);
      }
      if (isCurrentUser) {
          myMarker = activeUsers[id].marker;
          ...
          if (!map.hasInitialLocation) { ...; map.hasInitialLocation = true; }
      }
  });
  \<close>
\<close>

text \<open>
  This handler never throws on an inherited value: where \<^verbatim>\<open>activeUsers[id]\<close> is a member
  of \<^verbatim>\<open>Object.prototype\<close> (or, under the key \<^verbatim>\<open>__proto__\<close>, \<^verbatim>\<open>Object.prototype\<close> itself), the
  \<^verbatim>\<open>else\<close> branch writes \<^verbatim>\<open>lastUpdate\<close> and \<^verbatim>\<open>marker\<close> onto that object and the registry
  gets no property of its own. \<open>alienProps\<close> records these writes by name. A member that
  has no \<^verbatim>\<open>marker\<close> of its own reads the one written onto \<^verbatim>\<open>Object.prototype\<close>, if any. A
  write onto \<^verbatim>\<open>Object.prototype\<close> is inherited by every other object of the page as
  well; the model records the write and follows it no further.
\<close>

datatype objref = OwnRef string | AlienRef string

definition resolve_part0 :: "client \<Rightarrow> string \<Rightarrow> objref option" where
  "resolve_part0 st k =
     (if map_of (activeUsers st) k \<noteq> None then Some (OwnRef k)
      else if k \<in> set Object_prototype_names then Some (AlienRef k)
      else None)"

definition alien_at :: "client \<Rightarrow> string \<Rightarrow> alien" where
  "alien_at st k =
     (case map_of (alienProps st) k of
        Some a \<Rightarrow> a
      | None \<Rightarrow> \<lparr>a_marker = None, a_lastUpdate = None\<rparr>)"

definition get_marker_part0 :: "client \<Rightarrow> objref \<Rightarrow> nat option" where
  "get_marker_part0 st r =
     (case r of
        OwnRef k \<Rightarrow> (case map_of (activeUsers st) k of Some u \<Rightarrow> marker u | None \<Rightarrow> None)
      | AlienRef k \<Rightarrow>
          (case a_marker (alien_at st k) of
             Some m \<Rightarrow> Some m
           | None \<Rightarrow> if k = ''__proto__'' then None else a_marker (alien_at st ''__proto__'')))"

definition set_marker_part0 :: "objref \<Rightarrow> nat \<Rightarrow> client \<Rightarrow> client" where
  "set_marker_part0 r m st =
     (case r of
        OwnRef k \<Rightarrow>
          (case map_of (activeUsers st) k of
             Some u \<Rightarrow> st\<lparr>activeUsers := AList.update k (u\<lparr>marker := Some m\<rparr>) (activeUsers st)\<rparr>
           | None \<Rightarrow> st)
      | AlienRef k \<Rightarrow>
          st\<lparr>alienProps := AList.update k ((alien_at st k)\<lparr>a_marker := Some m\<rparr>) (alienProps st)\<rparr>)"

definition set_lastUpdate_part0 :: "objref \<Rightarrow> int \<Rightarrow> client \<Rightarrow> client" where
  "set_lastUpdate_part0 r t st =
     (case r of
        OwnRef k \<Rightarrow>
          (case map_of (activeUsers st) k of
             Some u \<Rightarrow> st\<lparr>activeUsers := AList.update k (u\<lparr>lastUpdate := t\<rparr>) (activeUsers st)\<rparr>
           | None \<Rightarrow> st)
      | AlienRef k \<Rightarrow>
          st\<lparr>alienProps :=
               AList.update k ((alien_at st k)\<lparr>a_lastUpdate := Some t\<rparr>) (alienProps st)\<rparr>)"

definition part0_self :: "location \<Rightarrow> client \<Rightarrow> exn option \<times> client" where
  "part0_self data st =
     (if id_msg data = mySocketId st then
        (case resolve_part0 st (key_of (id_msg data)) of
           None \<Rightarrow> (Some TypeError, st)
         | Some r \<Rightarrow>
             (None, st\<lparr>myMarker := get_marker_part0 st r, hasInitialLocation := True\<rparr>))
      else (None, st))"

definition part0_marker :: "location \<Rightarrow> client \<Rightarrow> exn option \<times> client" where
  "part0_marker data st =
     (case resolve_part0 st (key_of (id_msg data)) of
        None \<Rightarrow> (Some TypeError, st)
      | Some r \<Rightarrow>
          (case get_marker_part0 st r of
             Some m \<Rightarrow>
               (case setLatLng m (latitude data) (longitude data) st of
                  Inl e \<Rightarrow> (Some e, st)
                | Inr st1 \<Rightarrow> part0_self data st1)
           | None \<Rightarrow>
               (case L_marker (latitude data) (longitude data)
                       (id_msg data = mySocketId st) st of
                  Inl e \<Rightarrow> (Some e, st)
                | Inr (m, st1) \<Rightarrow>
                    (let st2 = set_marker_part0 r m st1
                     in if id_msg data \<noteq> mySocketId st \<and> \<not> is_string (id_msg data)
                        then (Some TypeError, st2)
                        else part0_self data st2))))"

definition receive_location_part0 :: "location \<Rightarrow> int \<Rightarrow> client \<Rightarrow> exn option \<times> client" where
  "receive_location_part0 data now st =
     (if \<not> mapPresent st then (None, st)
      else
        (case resolve_part0 st (key_of (id_msg data)) of
           None \<Rightarrow>
             (let st1 = st\<lparr>activeUsers :=
                          AList.update (key_of (id_msg data))
                            \<lparr>id_user = id_msg data, marker = None, lastUpdate = now\<rparr>
                            (activeUsers st)\<rparr>
              in case updateActiveUsersList_part0 st1 of
                   Some e \<Rightarrow> (Some e, st1)
                 | None \<Rightarrow> part0_marker data st1)
         | Some r \<Rightarrow> part0_marker data (set_lastUpdate_part0 r now st)))"

text \<open>
  \<^verbatim>\<open>
  // Clean up inactive users every 30 seconds
  setInterval(() => {
      if (!map) return;
      const now = new Date();
      Object.keys(activeUsers).forEach(id => {
          const user = activeUsers[id];
          const timeDiff = now - user.lastUpdate;
          // If user hasn't updated in 30 seconds, remove them
          if (timeDiff > 30000) {
              if (user.marker) { map.removeLayer(user.marker); }
              delete activeUsers[id];
              updateActiveUsersList();
          }
      });
  }, 30000);
  \<close>
\<close>

fun cleanup_loop_part0 :: "int \<Rightarrow> int \<Rightarrow> string list \<Rightarrow> client \<Rightarrow> exn option \<times> client" where
  "cleanup_loop_part0 thr now [] st = (None, st)"
| "cleanup_loop_part0 thr now (k # ks) st =
     (case map_of (activeUsers st) k of
        None \<Rightarrow> (Some TypeError, st)
      | Some u \<Rightarrow>
          if now - lastUpdate u > thr
          then (let st1 = (case marker u of Some m \<Rightarrow> removeLayer m st | None \<Rightarrow> st)
                            \<lparr>activeUsers := AList.delete k (activeUsers st)\<rparr>
                in case updateActiveUsersList_part0 st1 of
                     Some e \<Rightarrow> (Some e, st1)
                   | None \<Rightarrow> cleanup_loop_part0 thr now ks st1)
          else cleanup_loop_part0 thr now ks st)"

definition cleanup_part0 :: "int \<Rightarrow> client \<Rightarrow> exn option \<times> client" where
  "cleanup_part0 now st =
     (if \<not> mapPresent st then (None, st)
      else cleanup_loop_part0 30000 now (Object_keys (activeUsers st)) st)"

section \<open>Well-formed registries\<close>

text \<open>
  An object holds each key once, and every entry that a handler of script.js creates
  carries a marker. Both facts hold when the script has loaded and every handler keeps
  them, so they hold in every state the client reaches.
\<close>

definition registry_ok :: "client \<Rightarrow> bool" where
  "registry_ok st =
     (distinct (map fst (activeUsers st)) \<and>
      list_all (\<lambda>(k, u). marker u \<noteq> None) (activeUsers st))"

text \<open>How many entries the registry holds under key \<open>k\<close>.\<close>

definition entries_for :: "client \<Rightarrow> string \<Rightarrow> nat" where
  "entries_for st k = length (filter (\<lambda>e. fst e = k) (activeUsers st))"




section \<open>Sample runs\<close>


definition tracking_client :: client where
  "tracking_client = client_run [(0, Connect ''b1''), (1000, Fix 1 2)] initial_client"

definition crowded_client :: client where
  "crowded_client =
     client_run
       [(0, Connect ''b1''),
        (1000, ReceiveLocation
           \<lparr>id_msg = JStr ''a1'', latitude = Some 37, longitude = Some (-122)\<rparr>),
        (20000, ReceiveLocation
           \<lparr>id_msg = JStr ''c1'', latitude = Some 5, longitude = Some 6\<rparr>)]
       initial_client"

section \<open>Facts about the sample runs\<close>


lemma tracking_client_fields:
  "mySocketId tracking_client = JStr ''b1''"
  "activeUsers tracking_client =
     [(''b1'', \<lparr>id_user = JStr ''b1'', marker = Some 0, lastUpdate = 1000\<rparr>)]"
  "myMarker tracking_client = Some 0"
  "latlng (markers tracking_client 0) = (1, 2)"
  by (simp_all add: tracking_client_def on_connect_def watch_success_def L_marker_def
      tracking_active_def initial_client_def assign_user_def)

lemma crowded_client_fields:
  "mySocketId crowded_client = JStr ''b1''"
  "activeUsers crowded_client =
     [(''a1'', \<lparr>id_user = JStr ''a1'', marker = Some 0, lastUpdate = 1000\<rparr>),
      (''c1'', \<lparr>id_user = JStr ''c1'', marker = Some 1, lastUpdate = 20000\<rparr>)]"
  "protoEntry crowded_client = None"
  by (simp_all add: crowded_client_def on_connect_def receive_location_def L_marker_def
      initial_client_def read_slot_def assign_user_def Object_prototype_names_def)

section \<open>The relay\<close>

text \<open>
  socket.io gives every connection an identity of its own, so the connected set stays
  free of repetitions.
\<close>

lemma connection_distinct:
  "distinct (sockets r) \<Longrightarrow> sid \<notin> set (sockets r) \<Longrightarrow> distinct (sockets (connection sid r))"
  by (simp add: connection_def)

lemma received_by_broadcast:
  "distinct cs \<Longrightarrow>
   map (\<lambda>d. snd (snd d))
     (filter (\<lambda>d. fst d = c \<and> fst (snd d) = ''receive-location'')
        (map (\<lambda>c. (c, ''receive-location'', msg)) cs)) = (if c \<in> set cs then [msg] else [])"
  by (induction cs) auto

lemma received_by_io_emit:
  "distinct (sockets r) \<Longrightarrow>
   received_by c (io_emit ''receive-location'' msg r) = (if c \<in> set (sockets r) then [msg] else [])"
  by (simp add: received_by_def io_emit_def received_by_broadcast)

text \<open>
  \<^verbatim>\<open>io.emit\<close> reaches the sender too. With \<^verbatim>\<open>a1\<close> and \<^verbatim>\<open>b1\<close> connected, a
  \<^verbatim>\<open>send-location\<close> from \<^verbatim>\<open>a1\<close> makes two deliveries, one of them to \<^verbatim>\<open>a1\<close>.
\<close>

theorem relay_echoes_to_sender:
  "received_by ''a1''
     (snd (send_location ''a1''
        \<lparr>id_msg = JUndefined, latitude = Some 37, longitude = Some (-122)\<rparr>
        \<lparr>sockets = [''a1'', ''b1''], console = []\<rparr>))
   = [\<lparr>id_msg = JStr ''a1'', latitude = Some 37, longitude = Some (-122)\<rparr>] \<and>
   length (snd (send_location ''a1''
        \<lparr>id_msg = JUndefined, latitude = Some 37, longitude = Some (-122)\<rparr>
        \<lparr>sockets = [''a1'', ''b1''], console = []\<rparr>)) = 2"
  by (simp add: send_location_def io_emit_def spread_id_def received_by_def)

text \<open>
  Claim C1, as the relay does it: with N distinct channels connected and a
  \<^verbatim>\<open>send-location\<close> from the connected channel \<open>k\<close> whose payload carries no \<^verbatim>\<open>id\<close>,
  the relay makes N deliveries; every connected channel, \<open>k\<close> included, receives exactly
  one \<^verbatim>\<open>receive-location\<close> with identity \<open>k\<close> and the sender's coordinates, and no
  other channel receives anything. The relay's own state does not change.
\<close>

theorem relay_fanout_to_all:
  assumes "distinct (sockets r)" and "k \<in> set (sockets r)" and "id_msg data = JUndefined"
  shows "fst (send_location k data r) = r \<and>
         length (snd (send_location k data r)) = length (sockets r) \<and>
         received_by k (snd (send_location k data r))
           = [\<lparr>id_msg = JStr k, latitude = latitude data, longitude = longitude data\<rparr>] \<and>
         (\<forall>c. received_by c (snd (send_location k data r))
           = (if c \<in> set (sockets r)
              then [\<lparr>id_msg = JStr k, latitude = latitude data, longitude = longitude data\<rparr>]
              else []))"
proof -
  have sp: "spread_id k data
      = \<lparr>id_msg = JStr k, latitude = latitude data, longitude = longitude data\<rparr>"
    using assms(3) by (simp add: spread_id_def)
  have out: "snd (send_location k data r) = io_emit ''receive-location'' (spread_id k data) r"
    by (simp add: send_location_def)
  have all: "\<forall>c. received_by c (snd (send_location k data r))
           = (if c \<in> set (sockets r)
              then [\<lparr>id_msg = JStr k, latitude = latitude data, longitude = longitude data\<rparr>]
              else [])"
    unfolding out sp using received_by_io_emit [OF assms(1)] by simp
  have "received_by k (snd (send_location k data r))
           = [\<lparr>id_msg = JStr k, latitude = latitude data, longitude = longitude data\<rparr>]"
    using all assms(2) by simp
  moreover have "length (snd (send_location k data r)) = length (sockets r)"
    by (simp add: send_location_def io_emit_def)
  moreover have "fst (send_location k data r) = r" by (simp add: send_location_def)
  ultimately show ?thesis using all by blast
qed

theorem relay_fanout_to_all_witness:
  "distinct (sockets \<lparr>sockets = [''a1'', ''b1'', ''c1''], console = []\<rparr>) \<and>
   ''a1'' \<in> set (sockets \<lparr>sockets = [''a1'', ''b1'', ''c1''], console = []\<rparr>) \<and>
   length (snd (send_location ''a1''
       \<lparr>id_msg = JUndefined, latitude = Some 37, longitude = Some (-122)\<rparr>
       \<lparr>sockets = [''a1'', ''b1'', ''c1''], console = []\<rparr>)) = 3 \<and>
   received_by ''a1'' (snd (send_location ''a1''
       \<lparr>id_msg = JUndefined, latitude = Some 37, longitude = Some (-122)\<rparr>
       \<lparr>sockets = [''a1'', ''b1'', ''c1''], console = []\<rparr>))
     = [\<lparr>id_msg = JStr ''a1'', latitude = Some 37, longitude = Some (-122)\<rparr>] \<and>
   received_by ''c1'' (snd (send_location ''a1''
       \<lparr>id_msg = JUndefined, latitude = Some 37, longitude = Some (-122)\<rparr>
       \<lparr>sockets = [''a1'', ''b1'', ''c1''], console = []\<rparr>))
     = [\<lparr>id_msg = JStr ''a1'', latitude = Some 37, longitude = Some (-122)\<rparr>]"
proof -
  let ?r = "\<lparr>sockets = [''a1'', ''b1'', ''c1''], console = []\<rparr>"
  let ?d = "\<lparr>id_msg = JUndefined, latitude = Some 37, longitude = Some (-122)\<rparr>"
  have h1: "distinct (sockets ?r)" by simp
  have h2: "''a1'' \<in> set (sockets ?r)" by simp
  have h3: "id_msg ?d = JUndefined" by simp
  from relay_fanout_to_all [OF h1 h2 h3] show ?thesis by simp
qed

text \<open>
  The identity that is fanned out is the socket's only when the payload has none.
\<close>

lemma spread_id_id:
  "id_msg (spread_id sid data) = (if id_msg data = JUndefined then JStr sid else id_msg data)"
  by (cases "id_msg data") (simp_all add: spread_id_def)

text \<open>
  Claim C4 fails on the relay: the payload is spread after \<^verbatim>\<open>id:socket.id\<close>, so an
  \<^verbatim>\<open>id\<close> that the sender puts into its payload is the identity that is fanned out.
  Channel \<^verbatim>\<open>a1\<close> sends a position under the identity of \<^verbatim>\<open>b1\<close>, and every client is
  told that \<^verbatim>\<open>b1\<close> is there.
\<close>

theorem relay_identity_from_payload:
  "snd (send_location ''a1''
      \<lparr>id_msg = JStr ''b1'', latitude = Some 10, longitude = Some 10\<rparr>
      \<lparr>sockets = [''a1'', ''b1'', ''c1''], console = []\<rparr>)
   = [(''a1'', ''receive-location'',
         \<lparr>id_msg = JStr ''b1'', latitude = Some 10, longitude = Some 10\<rparr>),
      (''b1'', ''receive-location'',
         \<lparr>id_msg = JStr ''b1'', latitude = Some 10, longitude = Some 10\<rparr>),
      (''c1'', ''receive-location'',
         \<lparr>id_msg = JStr ''b1'', latitude = Some 10, longitude = Some 10\<rparr>)]"
  by (simp add: send_location_def io_emit_def spread_id_def)

section \<open>The staleness sweep\<close>

lemma Object_keys_set: "set (Object_keys al) = fst ` set al"
  by (auto simp: Object_keys_def)

lemma Object_keys_distinct:
  "distinct (map fst al) \<Longrightarrow> distinct (Object_keys al)"
  by (auto simp: Object_keys_def)



text \<open>
  The loop never deletes the key that equals \<^verbatim>\<open>mySocketId\<close>, whatever the threshold and
  whatever keys it is given.
\<close>

lemma cleanup_loop_keeps_local:
  "mySocketId st = JStr me \<Longrightarrow>
   map_of (activeUsers (snd (cleanup_loop thr now ks st))) me = map_of (activeUsers st) me"
proof (induction ks arbitrary: st)
  case Nil
  then show ?case by simp
next
  case (Cons k ks)
  show ?case
  proof (cases "map_of (activeUsers st) k")
    case None
    then show ?thesis by simp
  next
    case (Some u)
    let ?st1 = "(case marker u of Some m \<Rightarrow> removeLayer m st | None \<Rightarrow> st)
                  \<lparr>activeUsers := AList.delete k (activeUsers st)\<rparr>"
    show ?thesis
    proof (cases "now - lastUpdate u > thr \<and> JStr k \<noteq> mySocketId st")
      case True
      then have ne: "k \<noteq> me" using Cons.prems by auto
      have id1: "mySocketId ?st1 = JStr me"
        using Cons.prems by (simp add: removeLayer_def split: option.splits)
      have "map_of (activeUsers (snd (cleanup_loop thr now ks ?st1))) me
              = map_of (activeUsers ?st1) me"
        by (rule Cons.IH [OF id1])
      also have "\<dots> = map_of (activeUsers st) me"
        using ne by (simp add: delete_conv)
      finally show ?thesis using Some True by simp
    next
      case False
      then show ?thesis using Some Cons.IH [OF Cons.prems] by auto
    qed
  qed
qed

text \<open>
  Over distinct keys that are all present the loop runs to its end, and a key is gone
  afterwards exactly when it was visited, stale and not the client's own.
\<close>

lemma cleanup_loop_map_of:
  "distinct ks \<Longrightarrow> \<forall>k\<in>set ks. map_of (activeUsers st) k \<noteq> None \<Longrightarrow>
   fst (cleanup_loop thr now ks st) = None \<and>
   map_of (activeUsers (snd (cleanup_loop thr now ks st))) k =
     (case map_of (activeUsers st) k of
        None \<Rightarrow> None
      | Some u \<Rightarrow> if k \<in> set ks \<and> now - lastUpdate u > thr \<and> JStr k \<noteq> mySocketId st
                  then None else Some u)"
proof (induction ks arbitrary: st)
  case Nil
  then show ?case by (simp split: option.splits)
next
  case (Cons k0 ks)
  from Cons.prems obtain u0 where u0: "map_of (activeUsers st) k0 = Some u0" by auto
  have dist: "distinct ks" and notin: "k0 \<notin> set ks" using Cons.prems by auto
  let ?st1 = "(case marker u0 of Some m \<Rightarrow> removeLayer m st | None \<Rightarrow> st)
                \<lparr>activeUsers := AList.delete k0 (activeUsers st)\<rparr>"
  show ?case
  proof (cases "now - lastUpdate u0 > thr \<and> JStr k0 \<noteq> mySocketId st")
    case True
    have pres: "\<forall>k\<in>set ks. map_of (activeUsers ?st1) k \<noteq> None"
      using Cons.prems notin by (auto simp: delete_conv)
    have id1: "mySocketId ?st1 = mySocketId st"
      by (simp add: removeLayer_def split: option.splits)
    have m1: "map_of (activeUsers ?st1) k = (if k = k0 then None else map_of (activeUsers st) k)"
      by (auto simp: delete_conv)
    from Cons.IH [OF dist pres] have
      ih: "fst (cleanup_loop thr now ks ?st1) = None"
          "map_of (activeUsers (snd (cleanup_loop thr now ks ?st1))) k =
             (case map_of (activeUsers ?st1) k of
                None \<Rightarrow> None
              | Some u \<Rightarrow>
                  if k \<in> set ks \<and> now - lastUpdate u > thr \<and> JStr k \<noteq> mySocketId ?st1
                  then None else Some u)"
      by auto
    have step: "cleanup_loop thr now (k0 # ks) st = cleanup_loop thr now ks ?st1"
      using u0 True by simp
    show ?thesis
      unfolding step using ih(1) ih(2) m1 id1 u0 True
      by (auto split: option.splits)
  next
    case False
    have pres: "\<forall>k\<in>set ks. map_of (activeUsers st) k \<noteq> None" using Cons.prems by auto
    have step: "cleanup_loop thr now (k0 # ks) st = cleanup_loop thr now ks st"
      using u0 False by auto
    from Cons.IH [OF dist pres] show ?thesis
      unfolding step using u0 False notin by (auto split: option.splits)
  qed
qed

lemma cleanup_with_map_of:
  assumes "distinct (map fst (activeUsers st))"
  shows "fst (cleanup_with thr now st) = None"
    and "map_of (activeUsers (snd (cleanup_with thr now st))) k =
     (case map_of (activeUsers st) k of
        None \<Rightarrow> None
      | Some u \<Rightarrow> if now - lastUpdate u > thr \<and> JStr k \<noteq> mySocketId st then None else Some u)"
proof -
  have dk: "distinct (Object_keys (activeUsers st))"
    by (rule Object_keys_distinct [OF assms])
  have pres: "\<forall>k\<in>set (Object_keys (activeUsers st)). map_of (activeUsers st) k \<noteq> None"
    by (simp add: Object_keys_set map_of_eq_None_iff)
  note L = cleanup_loop_map_of [OF dk pres, of thr now k]
  show "fst (cleanup_with thr now st) = None" using L by (simp add: cleanup_with_def)
  have "map_of (activeUsers st) k \<noteq> None \<Longrightarrow> k \<in> set (Object_keys (activeUsers st))"
    by (simp add: Object_keys_set map_of_eq_None_iff)
  then show "map_of (activeUsers (snd (cleanup_with thr now st))) k =
     (case map_of (activeUsers st) k of
        None \<Rightarrow> None
      | Some u \<Rightarrow> if now - lastUpdate u > thr \<and> JStr k \<noteq> mySocketId st then None else Some u)"
    using L by (auto simp: cleanup_with_def split: option.splits)
qed

text \<open>
  The sweep of the unnamed script tests the age alone. A client \<^verbatim>\<open>b1\<close> that has drawn
  its own entry from the relay's echo at time 0 and hears nothing for 30001 ms loses
  that entry at the next tick.
\<close>

theorem part0_sweep_removes_local:
  "mySocketId (snd (receive_location_part0
       \<lparr>id_msg = JStr ''b1'', latitude = Some 37, longitude = Some (-122)\<rparr> 0
       (on_connect ''b1'' initial_client))) = JStr ''b1'' \<and>
   map_of (activeUsers (snd (receive_location_part0
       \<lparr>id_msg = JStr ''b1'', latitude = Some 37, longitude = Some (-122)\<rparr> 0
       (on_connect ''b1'' initial_client)))) ''b1''
     = Some \<lparr>id_user = JStr ''b1'', marker = Some 0, lastUpdate = 0\<rparr> \<and>
   map_of (activeUsers (snd (cleanup_part0 30001 (snd (receive_location_part0
       \<lparr>id_msg = JStr ''b1'', latitude = Some 37, longitude = Some (-122)\<rparr> 0
       (on_connect ''b1'' initial_client)))))) ''b1'' = None"
proof -
  let ?st = "snd (receive_location_part0
       \<lparr>id_msg = JStr ''b1'', latitude = Some 37, longitude = Some (-122)\<rparr> 0
       (on_connect ''b1'' initial_client))"
  have st: "?st = (on_connect ''b1'' initial_client)
      \<lparr>activeUsers := [(''b1'', \<lparr>id_user = JStr ''b1'', marker = Some 0, lastUpdate = 0\<rparr>)],
       markers := (markers initial_client)
          (0 := \<lparr>latlng = (37, -122), onMap = True, selfIcon = True\<rparr>),
       nextMarker := 1, myMarker := Some 0, hasInitialLocation := True\<rparr>"
    by (simp add: receive_location_part0_def on_connect_def initial_client_def
        updateActiveUsersList_part0_def part0_marker_def part0_self_def L_marker_def
        resolve_part0_def get_marker_part0_def set_marker_part0_def
        Object_prototype_names_def)
  show ?thesis
    unfolding st
    by (simp add: on_connect_def initial_client_def cleanup_part0_def removeLayer_def
        updateActiveUsersList_part0_def Object_keys_def index_of_key_def)
qed

text \<open>
  Claim C3, as it holds of public/js/script.js: at every tick, for every threshold
  (0 included) and every age of its \<^verbatim>\<open>lastUpdate\<close>, the entry whose key is the client's
  own channel identity is still in the registry, unchanged, after the sweep. The
  threshold of the source is 30000 (\<open>cleanup\<close>); \<open>cleanup_with\<close> is the same sweep at
  any threshold.
\<close>

theorem sweep_keeps_local:
  assumes "mySocketId st = JStr me" and "map_of (activeUsers st) me = Some u"
  shows "map_of (activeUsers (snd (cleanup_with thr now st))) me = Some u \<and>
         map_of (activeUsers (snd (cleanup now st))) me = Some u"
  using assms cleanup_loop_keeps_local [of st me]
  by (simp add: cleanup_def cleanup_with_def)

theorem sweep_keeps_local_witness:
  "mySocketId tracking_client = JStr ''b1'' \<and>
   map_of (activeUsers tracking_client) ''b1''
     = Some \<lparr>id_user = JStr ''b1'', marker = Some 0, lastUpdate = 1000\<rparr> \<and>
   map_of (activeUsers (snd (cleanup_with 0 86400000 tracking_client))) ''b1''
     = Some \<lparr>id_user = JStr ''b1'', marker = Some 0, lastUpdate = 1000\<rparr>"
proof -
  have a: "mySocketId tracking_client = JStr ''b1''"
    by (simp add: tracking_client_fields)
  have b: "map_of (activeUsers tracking_client) ''b1''
     = Some \<lparr>id_user = JStr ''b1'', marker = Some 0, lastUpdate = 1000\<rparr>"
    by (simp add: tracking_client_fields)
  from sweep_keeps_local [OF a b, of 0 86400000] a b show ?thesis by simp
qed



section \<open>Upserts into the registry\<close>

lemma list_all_update:
  "list_all P al \<Longrightarrow> P (k, v) \<Longrightarrow> list_all P (AList.update k v al)"
  by (induction al) auto

lemma list_all_delete:
  "list_all P al \<Longrightarrow> list_all P (AList.delete k al)"
  by (induction al) auto

lemma count_key_one:
  "distinct (map fst al) \<Longrightarrow> map_of al k = Some v \<Longrightarrow> length (filter (\<lambda>e. fst e = k) al) = 1"
proof (induction al)
  case Nil
  then show ?case by simp
next
  case (Cons p al)
  show ?case
  proof (cases "fst p = k")
    case True
    then have "k \<notin> fst ` set al" using Cons.prems(1) by auto
    then have "filter (\<lambda>e. fst e = k) al = []" by (auto simp: filter_empty_conv)
    then show ?thesis using True by simp
  next
    case False
    then show ?thesis using Cons by (cases p) auto
  qed
qed

lemma registry_ok_marker:
  "registry_ok st \<Longrightarrow> map_of (activeUsers st) k = Some u \<Longrightarrow> marker u \<noteq> None"
  by (auto simp: registry_ok_def list_all_iff dest: map_of_SomeD)

lemma registry_ok_initial: "registry_ok initial_client"
  by (simp add: registry_ok_def initial_client_def)

lemma registry_ok_update:
  "registry_ok st \<Longrightarrow> marker v \<noteq> None \<Longrightarrow>
   activeUsers st' = AList.update k v (activeUsers st) \<Longrightarrow> registry_ok st'"
  by (simp add: registry_ok_def distinct_update list_all_update)





lemma read_slot_Missing_key:
  "read_slot st k = Missing \<Longrightarrow> k \<noteq> ''__proto__'' \<and> map_of (activeUsers st) k = None"
  by (auto simp: read_slot_def Object_prototype_names_def split: option.splits if_splits)

lemma read_slot_inherited:
  "map_of (activeUsers st) k = None \<Longrightarrow> protoEntry st = None \<Longrightarrow>
   k \<in> set Object_prototype_names \<Longrightarrow> read_slot st k = Alien"
  by (simp add: read_slot_def)


lemma assign_user_fields:
  "mySocketId (assign_user k v st) = mySocketId st"
  "myMarker (assign_user k v st) = myMarker st"
  "markers (assign_user k v st) = markers st"
  "k \<noteq> ''__proto__'' \<Longrightarrow> activeUsers (assign_user k v st) = AList.update k v (activeUsers st)"
  "k \<noteq> ''__proto__'' \<Longrightarrow> protoEntry (assign_user k v st) = protoEntry st"
  "k = ''__proto__'' \<Longrightarrow> activeUsers (assign_user k v st) = activeUsers st"
  by (simp_all add: assign_user_def)

lemma assign_user_keeps_keys:
  "map_of (activeUsers st) k \<noteq> None \<Longrightarrow> map_of (activeUsers (assign_user k' v st)) k \<noteq> None"
  by (simp add: assign_user_def update_conv')

lemma registry_ok_same:
  "registry_ok st \<Longrightarrow> activeUsers st' = activeUsers st \<Longrightarrow> registry_ok st'"
  by (simp add: registry_ok_def)



text \<open>
  A message without \<^verbatim>\<open>latitude\<close> or \<^verbatim>\<open>longitude\<close> changes nothing, and ends the
  handler by an exception unless the handler's first test has returned already.
\<close>

lemma receive_location_malformed:
  assumes "latitude data = None \<or> longitude data = None"
  shows "snd (receive_location data now st) = st"
    and "id_msg data \<noteq> mySocketId st \<Longrightarrow> fst (receive_location data now st) \<noteq> None"
  using assms
  by (auto simp: receive_location_def L_marker_def setLatLng_def
      split: option.splits sum.splits prod.splits slot.splits)




text \<open>
  In script.js an upsert for the client's own identity changes nothing, also when the
  local entry exists: the client \<^verbatim>\<open>b1\<close>, at (1, 2) since its fix at 1000, is told (2, 3)
  at 5000 and keeps position (1, 2) and \<^verbatim>\<open>lastUpdate\<close> 1000.
\<close>

theorem own_echo_ignored_example:
  "position_of (snd (receive_location
       \<lparr>id_msg = JStr ''b1'', latitude = Some 2, longitude = Some 3\<rparr> 5000 tracking_client))
     ''b1'' = Some (1, 2) \<and>
   map_option lastUpdate (map_of (activeUsers (snd (receive_location
       \<lparr>id_msg = JStr ''b1'', latitude = Some 2, longitude = Some 3\<rparr> 5000 tracking_client)))
     ''b1'') = Some 1000 \<and>
   mySocketId tracking_client = JStr ''b1''"
  by (simp add: receive_location_def position_of_def tracking_client_fields)

text \<open>
  Claim C5, as script.js does it: a \<^verbatim>\<open>receive-location\<close> whose identity equals
  \<^verbatim>\<open>mySocketId\<close> is discarded by the handler's first statement; the handler returns
  normally and the state, with every entry's position and \<^verbatim>\<open>lastUpdate\<close>, is as before.
\<close>

theorem own_echo_discarded:
  assumes "id_msg data = mySocketId st"
  shows "receive_location data now st = (None, st) \<and>
         position_of (snd (receive_location data now st)) k = position_of st k \<and>
         map_of (activeUsers (snd (receive_location data now st))) k = map_of (activeUsers st) k"
  using assms by (simp add: receive_location_def)

theorem own_echo_discarded_witness:
  "id_msg \<lparr>id_msg = JStr ''b1'', latitude = Some 2, longitude = Some 3\<rparr>
     = mySocketId tracking_client \<and>
   receive_location \<lparr>id_msg = JStr ''b1'', latitude = Some 2, longitude = Some 3\<rparr> 5000
     tracking_client = (None, tracking_client) \<and>
   position_of tracking_client ''b1'' = Some (1, 2)"
proof -
  have h: "id_msg \<lparr>id_msg = JStr ''b1'', latitude = Some 2, longitude = Some 3\<rparr>
     = mySocketId tracking_client"
    by (simp add: tracking_client_fields)
  from own_echo_discarded [OF h, of 5000 "''b1''"] h show ?thesis
    by (simp add: position_of_def tracking_client_fields)
qed




section \<open>The self-location publisher\<close>

text \<open>
  Claim C8: whatever the positioning failure and whatever the state, the error
  callback leaves the registry, the markers and \<^verbatim>\<open>myMarker\<close> as they are, so every
  participant, the local one included, keeps its entry and position; it sets the
  tracking text to \<^verbatim>\<open>Tracking Error\<close>, stops the pulse and shows a toast. The callback
  that \<^verbatim>\<open>initializeApp\<close> registers does the same with the text \<^verbatim>\<open>Tracking Failed\<close>.
\<close>

theorem positioning_failure_keeps_registry:
  "activeUsers (watch_error e st) = activeUsers st \<and>
   markers (watch_error e st) = markers st \<and>
   myMarker (watch_error e st) = myMarker st \<and>
   position_of (watch_error e st) k = position_of st k \<and>
   trackingText (watch_error e st) = ''Tracking Error'' \<and>
   pulse (watch_error e st) = False \<and>
   toasts (watch_error e st)
     = toasts st @ [''Could not get your location. Please check GPS settings.''] \<and>
   client_step now (FixError e) st = (None, watch_error e st) \<and>
   activeUsers (init_watch_error e st) = activeUsers st \<and>
   markers (init_watch_error e st) = markers st \<and>
   myMarker (init_watch_error e st) = myMarker st \<and>
   position_of (init_watch_error e st) k = position_of st k \<and>
   trackingText (init_watch_error e st) = ''Tracking Failed'' \<and>
   client_step now (InitFixError e) st = (None, init_watch_error e st)"
  by (simp add: watch_error_def init_watch_error_def position_of_def split: option.splits)

text \<open>
  The two success callbacks are the same function of the state.
\<close>

lemma init_watch_success_eq:
  "init_watch_success la lo now st = watch_success la lo now st"
  by (simp add: init_watch_success_def watch_success_def Let_def split: option.splits)

lemma watch_success_mySocketId:
  "mySocketId (snd (watch_success la lo now st)) = mySocketId st"
  by (simp add: watch_success_def L_marker_def setLatLng_def tracking_active_def Let_def
      assign_user_def split: option.splits)


lemma watch_success_first:
  assumes "myMarker st = None" and "key_of (mySocketId st) \<noteq> ''__proto__''"
  shows "fst (watch_success la lo now st) = None"
    and "myMarker (snd (watch_success la lo now st)) = Some (nextMarker st)"
    and "map_of (activeUsers (snd (watch_success la lo now st))) (key_of (mySocketId st))
           = Some \<lparr>id_user = mySocketId st, marker = Some (nextMarker st), lastUpdate = now\<rparr>"
    and "position_of (snd (watch_success la lo now st)) (key_of (mySocketId st)) = Some (la, lo)"
  using assms
  by (simp_all add: watch_success_def L_marker_def tracking_active_def position_of_def Let_def
      update_conv' assign_user_def)










section \<open>What removes an entry\<close>

lemma receive_location_keeps_keys:
  "map_of (activeUsers st) k \<noteq> None \<Longrightarrow>
   map_of (activeUsers (snd (receive_location data now st))) k \<noteq> None"
  by (auto simp: receive_location_def L_marker_def setLatLng_def update_conv' assign_user_def
      split: option.splits sum.splits prod.splits slot.splits)

lemma watch_success_keeps_keys:
  "map_of (activeUsers st) k \<noteq> None \<Longrightarrow>
   map_of (activeUsers (snd (watch_success la lo now st))) k \<noteq> None"
  by (auto simp: watch_success_def L_marker_def setLatLng_def update_conv' tracking_active_def
      Let_def assign_user_def split: option.splits sum.splits prod.splits)

lemma init_watch_success_keeps_keys:
  "map_of (activeUsers st) k \<noteq> None \<Longrightarrow>
   map_of (activeUsers (snd (init_watch_success la lo now st))) k \<noteq> None"
  by (simp add: init_watch_success_eq watch_success_keeps_keys)

lemma only_tick_removes:
  "ev \<noteq> Tick \<Longrightarrow> map_of (activeUsers st) k \<noteq> None \<Longrightarrow>
   map_of (activeUsers (snd (client_step now ev st))) k \<noteq> None"
  by (cases ev)
     (simp_all add: receive_location_keeps_keys watch_success_keeps_keys
        init_watch_success_keeps_keys on_connect_def on_disconnect_def watch_error_def
        init_watch_error_def)

text \<open>
  Claim C9: when channel \<open>c\<close> disconnects the relay drops it from the connected set
  and delivers nothing, so handing the disconnect's deliveries to the clients changes
  no client. In a client, no event other than the sweep's tick removes \<open>c\<close>'s entry,
  and a tick more than 30000 ms after the entry's last update removes it (when \<open>c\<close> is
  not the client's own identity).
\<close>

theorem disconnect_is_silent:
  "snd (disconnect c r) = [] \<and>
   sockets (fst (disconnect c r)) = removeAll c (sockets r) \<and>
   c \<notin> set (sockets (fst (disconnect c r))) \<and>
   deliver now (snd (disconnect c r)) cs = cs \<and>
   (ev \<noteq> Tick \<and> map_of (activeUsers st) c \<noteq> None
      \<longrightarrow> map_of (activeUsers (snd (client_step t ev st))) c \<noteq> None) \<and>
   (distinct (map fst (activeUsers st)) \<and> map_of (activeUsers st) c = Some u \<and>
    JStr c \<noteq> mySocketId st \<and> t - lastUpdate u > 30000
      \<longrightarrow> map_of (activeUsers (snd (cleanup t st))) c = None)"
proof -
  have "snd (disconnect c r) = []" by (simp add: disconnect_def)
  moreover have "sockets (fst (disconnect c r)) = removeAll c (sockets r)"
    by (simp add: disconnect_def)
  moreover have "c \<notin> set (sockets (fst (disconnect c r)))" by (simp add: disconnect_def)
  moreover have "deliver now (snd (disconnect c r)) cs = cs" by (simp add: disconnect_def)
  moreover have "ev \<noteq> Tick \<and> map_of (activeUsers st) c \<noteq> None
      \<longrightarrow> map_of (activeUsers (snd (client_step t ev st))) c \<noteq> None"
    using only_tick_removes [of ev st c t] by blast
  moreover have "distinct (map fst (activeUsers st)) \<and> map_of (activeUsers st) c = Some u \<and>
    JStr c \<noteq> mySocketId st \<and> t - lastUpdate u > 30000
      \<longrightarrow> map_of (activeUsers (snd (cleanup t st))) c = None"
    by (simp add: cleanup_def cleanup_with_map_of(2))
  ultimately show ?thesis by blast
qed

theorem disconnect_is_silent_witness:
  "snd (disconnect ''a1'' \<lparr>sockets = [''a1'', ''b1'', ''c1''], console = []\<rparr>) = [] \<and>
   sockets (fst (disconnect ''a1'' \<lparr>sockets = [''a1'', ''b1'', ''c1''], console = []\<rparr>))
     = [''b1'', ''c1''] \<and>
   ReceiveLocation \<lparr>id_msg = JStr ''c1'', latitude = Some 5, longitude = Some 7\<rparr> \<noteq> Tick \<and>
   map_of (activeUsers crowded_client) ''a1''
     = Some \<lparr>id_user = JStr ''a1'', marker = Some 0, lastUpdate = 1000\<rparr> \<and>
   map_of (activeUsers (snd (client_step 25000
       (ReceiveLocation \<lparr>id_msg = JStr ''c1'', latitude = Some 5, longitude = Some 7\<rparr>)
       crowded_client))) ''a1'' \<noteq> None \<and>
   distinct (map fst (activeUsers crowded_client)) \<and>
   JStr ''a1'' \<noteq> mySocketId crowded_client \<and>
   (40000::int) - 1000 > 30000 \<and>
   map_of (activeUsers (snd (cleanup 40000 crowded_client))) ''a1'' = None"
  using disconnect_is_silent [of "''a1''" "\<lparr>sockets = [''a1'', ''b1'', ''c1''], console = []\<rparr>"
      0 "\<lambda>_. initial_client"
      "ReceiveLocation \<lparr>id_msg = JStr ''c1'', latitude = Some 5, longitude = Some 7\<rparr>"
      crowded_client 25000 "\<lparr>id_user = JStr ''a1'', marker = Some 0, lastUpdate = 1000\<rparr>"]
    disconnect_is_silent [of "''a1''" "\<lparr>sockets = [''a1'', ''b1'', ''c1''], console = []\<rparr>"
      0 "\<lambda>_. initial_client" Disconnect
      crowded_client 40000 "\<lparr>id_user = JStr ''a1'', marker = Some 0, lastUpdate = 1000\<rparr>"]
  by (simp add: crowded_client_fields)

section \<open>Every reachable registry is well-formed\<close>

lemma cleanup_loop_registry_ok:
  "registry_ok st \<Longrightarrow> registry_ok (snd (cleanup_loop thr now ks st))"
proof (induction ks arbitrary: st)
  case Nil
  then show ?case by simp
next
  case (Cons k ks)
  show ?case
  proof (cases "map_of (activeUsers st) k")
    case None
    then show ?thesis using Cons.prems by simp
  next
    case (Some u)
    let ?st1 = "(case marker u of Some m \<Rightarrow> removeLayer m st | None \<Rightarrow> st)
                  \<lparr>activeUsers := AList.delete k (activeUsers st)\<rparr>"
    have "registry_ok ?st1"
      using Cons.prems by (simp add: registry_ok_def distinct_delete list_all_delete)
    then have "registry_ok (snd (cleanup_loop thr now ks ?st1))" by (rule Cons.IH)
    then show ?thesis using Some Cons.IH [OF Cons.prems] by simp
  qed
qed

lemma receive_location_registry_ok:
  assumes ok: "registry_ok st"
  shows "registry_ok (snd (receive_location data now st))"
proof (cases "id_msg data = mySocketId st")
  case True
  then show ?thesis using ok by (simp add: receive_location_def)
next
  case other: False
  show ?thesis
  proof (cases "latitude data = None \<or> longitude data = None")
    case True
    then show ?thesis using ok receive_location_malformed(1) [of data now st] by simp
  next
    case False
    then obtain la lo where ll: "latitude data = Some la" "longitude data = Some lo" by auto
    show ?thesis
    proof (cases "read_slot st (key_of (id_msg data))")
      case Missing
      then have np: "key_of (id_msg data) \<noteq> ''__proto__''"
        using read_slot_Missing_key by blast
      show ?thesis
        by (rule registry_ok_update [OF ok, where k = "key_of (id_msg data)"
              and v = "\<lparr>id_user = id_msg data, marker = Some (nextMarker st), lastUpdate = now\<rparr>"])
           (simp_all add: receive_location_def L_marker_def ll Missing other assign_user_def np)
    next
      case (Own u)
      then have "map_of (activeUsers st) (key_of (id_msg data)) = Some u"
        by (auto simp: read_slot_def split: option.splits if_splits)
      then obtain m where mk: "marker u = Some m" using registry_ok_marker [OF ok] by auto
      show ?thesis
        by (rule registry_ok_update [OF ok, where k = "key_of (id_msg data)"
              and v = "u\<lparr>lastUpdate := now\<rparr>"])
           (simp_all add: receive_location_def setLatLng_def ll Own mk other)
    next
      case (Proto p)
      have "activeUsers (snd (receive_location data now st)) = activeUsers st"
        by (simp add: receive_location_def setLatLng_def ll Proto other split: option.splits)
      then show ?thesis by (rule registry_ok_same [OF ok])
    next
      case Alien
      then show ?thesis using ok by (simp add: receive_location_def other)
    qed
  qed
qed

lemma watch_success_registry_ok:
  assumes ok: "registry_ok st"
  shows "registry_ok (snd (watch_success la lo now st))"
proof (cases "myMarker st")
  case None
  show ?thesis
  proof (cases "key_of (mySocketId st) = ''__proto__''")
    case True
    have "activeUsers (snd (watch_success la lo now st)) = activeUsers st"
      by (simp add: watch_success_def L_marker_def tracking_active_def None Let_def
          assign_user_def True)
    then show ?thesis by (rule registry_ok_same [OF ok])
  next
    case False
    show ?thesis
      by (rule registry_ok_update [OF ok, where k = "key_of (mySocketId st)"
            and v = "\<lparr>id_user = mySocketId st, marker = Some (nextMarker st), lastUpdate = now\<rparr>"])
         (simp_all add: watch_success_def L_marker_def tracking_active_def None Let_def
            assign_user_def False)
  qed
next
  case (Some m)
  have "activeUsers (snd (watch_success la lo now st)) = activeUsers st"
    by (simp add: watch_success_def setLatLng_def tracking_active_def Some Let_def)
  then show ?thesis by (rule registry_ok_same [OF ok])
qed

lemma client_step_registry_ok:
  assumes ok: "registry_ok st"
  shows "registry_ok (snd (client_step now ev st))"
proof (cases ev)
  case (Connect sid)
  then show ?thesis using ok by (simp add: registry_ok_def on_connect_def)
next
  case Disconnect
  then show ?thesis using ok by (simp add: registry_ok_def on_disconnect_def)
next
  case (ReceiveLocation data)
  then show ?thesis using receive_location_registry_ok [OF ok] by simp
next
  case (Fix la lo)
  then show ?thesis using watch_success_registry_ok [OF ok] by simp
next
  case (InitFix la lo)
  then show ?thesis using watch_success_registry_ok [OF ok] by (simp add: init_watch_success_eq)
next
  case (FixError e)
  then show ?thesis using ok by (simp add: registry_ok_def watch_error_def)
next
  case (InitFixError e)
  then show ?thesis using ok by (simp add: registry_ok_def init_watch_error_def)
next
  case Tick
  then show ?thesis using cleanup_loop_registry_ok [OF ok] by (simp add: cleanup_def cleanup_with_def)
qed

lemma client_run_registry_ok:
  "registry_ok st \<Longrightarrow> registry_ok (client_run evs st)"
  by (induction evs arbitrary: st) (auto simp: client_step_registry_ok)

lemma reachable_registry_ok: "registry_ok (client_run evs initial_client)"
  by (rule client_run_registry_ok [OF registry_ok_initial])

lemma registry_ok_distinct: "registry_ok st \<Longrightarrow> distinct (map fst (activeUsers st))"
  by (simp add: registry_ok_def)

section \<open>The unnamed script applies every upsert\<close>

text \<open>
  With a map on the page and string identities in the registry, the handler of the
  unnamed script applies a well-formed \<^verbatim>\<open>receive-location\<close> for any string identity
  that is not the name of a member of \<^verbatim>\<open>Object.prototype\<close>, the client's own included
  (as long as nothing has been written onto \<^verbatim>\<open>Object.prototype\<close> itself).
\<close>

lemma updateActiveUsersList_part0_strings:
  "list_all (\<lambda>(k, u). is_string (id_user u)) (activeUsers st) \<Longrightarrow>
   updateActiveUsersList_part0 st = None"
  by (auto simp: updateActiveUsersList_part0_def list_all_iff list_ex_iff)

lemma resolve_part0_own:
  "map_of (activeUsers st) k = Some u \<Longrightarrow> resolve_part0 st k = Some (OwnRef k)"
  by (simp add: resolve_part0_def)

lemma resolve_part0_new:
  "map_of (activeUsers st) k = None \<Longrightarrow> k \<notin> set Object_prototype_names \<Longrightarrow>
   resolve_part0 st k = None"
  by (simp add: resolve_part0_def)

lemma part0_self_registry:
  "map_of (activeUsers st) (key_of (id_msg data)) \<noteq> None \<Longrightarrow>
   fst (part0_self data st) = None \<and>
   activeUsers (snd (part0_self data st)) = activeUsers st \<and>
   markers (snd (part0_self data st)) = markers st \<and>
   mySocketId (snd (part0_self data st)) = mySocketId st \<and>
   mapPresent (snd (part0_self data st)) = mapPresent st"
  by (auto simp: part0_self_def resolve_part0_def)

lemma part0_marker_applies:
  assumes d: "distinct (map fst (activeUsers st))"
    and e: "map_of (activeUsers st) s = Some u"
  shows "fst (part0_marker \<lparr>id_msg = JStr s, latitude = Some la, longitude = Some lo\<rparr> st) = None \<and>
         map fst (activeUsers
           (snd (part0_marker \<lparr>id_msg = JStr s, latitude = Some la, longitude = Some lo\<rparr> st)))
           = map fst (activeUsers st) \<and>
         position_of
           (snd (part0_marker \<lparr>id_msg = JStr s, latitude = Some la, longitude = Some lo\<rparr> st)) s
           = Some (la, lo) \<and>
         map_option lastUpdate (map_of (activeUsers
           (snd (part0_marker \<lparr>id_msg = JStr s, latitude = Some la, longitude = Some lo\<rparr> st))) s)
           = Some (lastUpdate u) \<and>
         map_option id_user (map_of (activeUsers
           (snd (part0_marker \<lparr>id_msg = JStr s, latitude = Some la, longitude = Some lo\<rparr> st))) s)
           = Some (id_user u)"
proof (cases "marker u")
  case None
  let ?data = "\<lparr>id_msg = JStr s, latitude = Some la, longitude = Some lo\<rparr>"
  let ?st2 = "st\<lparr>markers := (markers st)
                    (nextMarker st := \<lparr>latlng = (la, lo), onMap = True,
                                        selfIcon = (JStr s = mySocketId st)\<rparr>),
                 nextMarker := Suc (nextMarker st),
                 activeUsers := AList.update s (u\<lparr>marker := Some (nextMarker st)\<rparr>) (activeUsers st)\<rparr>"
  have pm: "part0_marker ?data st = part0_self ?data ?st2"
    using e None
    by (simp add: part0_marker_def L_marker_def resolve_part0_def get_marker_part0_def
        set_marker_part0_def)
  have pres: "map_of (activeUsers ?st2) (key_of (id_msg ?data)) \<noteq> None"
    by (simp add: update_conv')
  have keys: "map fst (activeUsers ?st2) = map fst (activeUsers st)"
    using e by (simp add: update_keys map_of_eq_None_iff [symmetric])
  show ?thesis
    unfolding pm using part0_self_registry [OF pres] keys
    by (simp add: position_of_def update_conv')
next
  case (Some m)
  let ?data = "\<lparr>id_msg = JStr s, latitude = Some la, longitude = Some lo\<rparr>"
  let ?st1 = "st\<lparr>markers := (markers st)(m := (markers st m)\<lparr>latlng := (la, lo)\<rparr>)\<rparr>"
  have pm: "part0_marker ?data st = part0_self ?data ?st1"
    using e Some
    by (simp add: part0_marker_def setLatLng_def resolve_part0_def get_marker_part0_def)
  have pres: "map_of (activeUsers ?st1) (key_of (id_msg ?data)) \<noteq> None"
    using e by simp
  show ?thesis
    unfolding pm using part0_self_registry [OF pres] e Some
    by (simp add: position_of_def)
qed

lemma receive_location_part0_applies:
  assumes mp: "mapPresent st" and d: "distinct (map fst (activeUsers st))"
    and strs: "list_all (\<lambda>(k, u). is_string (id_user u)) (activeUsers st)"
    and ni: "s \<notin> set Object_prototype_names"
    and clean: "map_of (alienProps st) ''__proto__'' = None"
  shows "fst (receive_location_part0
                \<lparr>id_msg = JStr s, latitude = Some la, longitude = Some lo\<rparr> now st) = None \<and>
         entries_for (snd (receive_location_part0
                \<lparr>id_msg = JStr s, latitude = Some la, longitude = Some lo\<rparr> now st)) s = 1 \<and>
         position_of (snd (receive_location_part0
                \<lparr>id_msg = JStr s, latitude = Some la, longitude = Some lo\<rparr> now st)) s
           = Some (la, lo) \<and>
         map_option lastUpdate (map_of (activeUsers (snd (receive_location_part0
                \<lparr>id_msg = JStr s, latitude = Some la, longitude = Some lo\<rparr> now st))) s)
           = Some now"
proof -
  let ?data = "\<lparr>id_msg = JStr s, latitude = Some la, longitude = Some lo\<rparr>"
  define e where "e = (case map_of (activeUsers st) s of
      None \<Rightarrow> \<lparr>id_user = JStr s, marker = None, lastUpdate = now\<rparr>
    | Some u \<Rightarrow> u\<lparr>lastUpdate := now\<rparr>)"
  define st1 where "st1 = st\<lparr>activeUsers := AList.update s e (activeUsers st)\<rparr>"
  have d1: "distinct (map fst (activeUsers st1))"
    using d by (simp add: st1_def distinct_update)
  have e1: "map_of (activeUsers st1) s = Some e"
    by (simp add: st1_def update_conv')
  have t1: "lastUpdate e = now"
    by (simp add: e_def split: option.splits)
  have "is_string (id_user e)"
    using strs by (auto simp: e_def list_all_iff split: option.splits dest: map_of_SomeD)
  then have "list_all (\<lambda>(k, u). is_string (id_user u)) (activeUsers st1)"
    using strs by (simp add: st1_def list_all_update)
  then have upd: "updateActiveUsersList_part0 st1 = None"
    by (rule updateActiveUsersList_part0_strings)
  have r: "receive_location_part0 ?data now st = part0_marker ?data st1"
  proof (cases "map_of (activeUsers st) s")
    case None
    then show ?thesis
      using mp upd resolve_part0_new [OF None ni]
      by (simp add: receive_location_part0_def st1_def e_def)
  next
    case (Some u)
    then show ?thesis
      using mp resolve_part0_own [OF Some]
      by (simp add: receive_location_part0_def st1_def e_def set_lastUpdate_part0_def)
  qed
  note M = part0_marker_applies [OF d1 e1, of la lo]
  let ?st' = "snd (part0_marker ?data st1)"
  have d': "distinct (map fst (activeUsers ?st'))" using M d1 by simp
  from M obtain v where v: "map_of (activeUsers ?st') s = Some v" by auto
  have "entries_for ?st' s = 1"
    unfolding entries_for_def by (rule count_key_one [OF d' v])
  then show ?thesis unfolding r using M t1 by simp
qed

lemma part0_applies_own_echo:
  "mySocketId (on_connect ''b1'' initial_client) = JStr ''b1'' \<and>
   position_of (snd (receive_location_part0
       \<lparr>id_msg = JStr ''b1'', latitude = Some 2, longitude = Some 3\<rparr> 5000
       (snd (receive_location_part0
          \<lparr>id_msg = JStr ''b1'', latitude = Some 1, longitude = Some 2\<rparr> 1000
          (on_connect ''b1'' initial_client))))) ''b1'' = Some (2, 3) \<and>
   map_option lastUpdate (map_of (activeUsers (snd (receive_location_part0
       \<lparr>id_msg = JStr ''b1'', latitude = Some 2, longitude = Some 3\<rparr> 5000
       (snd (receive_location_part0
          \<lparr>id_msg = JStr ''b1'', latitude = Some 1, longitude = Some 2\<rparr> 1000
          (on_connect ''b1'' initial_client)))))) ''b1'') = Some 5000"
  by (simp add: receive_location_part0_def on_connect_def initial_client_def
      updateActiveUsersList_part0_def part0_marker_def part0_self_def L_marker_def
      setLatLng_def position_of_def resolve_part0_def get_marker_part0_def
      set_marker_part0_def set_lastUpdate_part0_def Object_prototype_names_def)

text \<open>
  It validates no more than script.js does, and writes the entry before the marker:
  a message without \<^verbatim>\<open>latitude\<close> leaves an entry without marker behind, and so does a
  message without \<^verbatim>\<open>id\<close>, whose sidebar label cannot be built.
\<close>

lemma part0_malformed_example:
  "fst (receive_location_part0 \<lparr>id_msg = JStr ''a1'', latitude = None, longitude = Some 3\<rparr>
          1000 (on_connect ''b1'' initial_client)) = Some InvalidLatLng \<and>
   activeUsers (snd (receive_location_part0
       \<lparr>id_msg = JStr ''a1'', latitude = None, longitude = Some 3\<rparr>
       1000 (on_connect ''b1'' initial_client)))
     = [(''a1'', \<lparr>id_user = JStr ''a1'', marker = None, lastUpdate = 1000\<rparr>)] \<and>
   fst (receive_location_part0 \<lparr>id_msg = JUndefined, latitude = Some 2, longitude = Some 3\<rparr>
          1000 (on_connect ''b1'' initial_client)) = Some TypeError \<and>
   activeUsers (snd (receive_location_part0
       \<lparr>id_msg = JUndefined, latitude = Some 2, longitude = Some 3\<rparr>
       1000 (on_connect ''b1'' initial_client)))
     = [(''undefined'', \<lparr>id_user = JUndefined, marker = None, lastUpdate = 1000\<rparr>)]"
  by (simp add: receive_location_part0_def on_connect_def initial_client_def
      updateActiveUsersList_part0_def part0_marker_def part0_self_def L_marker_def
      resolve_part0_def get_marker_part0_def set_marker_part0_def
      Object_prototype_names_def)

text \<open>
  An identity that names a member of \<^verbatim>\<open>Object.prototype\<close> gets no entry: the marker
  and the time are written onto that member.
\<close>

lemma part0_inherited_example:
  "fst (receive_location_part0
          \<lparr>id_msg = JStr ''constructor'', latitude = Some 1, longitude = Some 2\<rparr>
          1000 (on_connect ''b1'' initial_client)) = None \<and>
   activeUsers (snd (receive_location_part0
       \<lparr>id_msg = JStr ''constructor'', latitude = Some 1, longitude = Some 2\<rparr>
       1000 (on_connect ''b1'' initial_client))) = [] \<and>
   alienProps (snd (receive_location_part0
       \<lparr>id_msg = JStr ''constructor'', latitude = Some 1, longitude = Some 2\<rparr>
       1000 (on_connect ''b1'' initial_client)))
     = [(''constructor'', \<lparr>a_marker = Some 0, a_lastUpdate = Some 1000\<rparr>)]"
  by (simp add: receive_location_part0_def on_connect_def initial_client_def
      part0_marker_def part0_self_def L_marker_def resolve_part0_def get_marker_part0_def
      set_marker_part0_def set_lastUpdate_part0_def alien_at_def Object_prototype_names_def)

end
